theory Spec2Isabelle
  imports Complex_Main "HOL-Library.AList"
begin

section \<open>Values decoded from JSON\<close>

text \<open>
  The program works on whatever \<^verbatim>\<open>json.loads\<close> returns: \<^verbatim>\<open>None\<close>, booleans, integers,
  floats, strings, lists and dictionaries. A dictionary is an association list in
  insertion order (the order \<^verbatim>\<open>.items()\<close> iterates in). A float is carried by its value; the
  program only tests floats for truth and compares them with \<^verbatim>\<open>1\<close>. Python's \<^verbatim>\<open>None\<close> is
  \<open>JNull\<close>.
\<close>

datatype pyfloat = Finite rat | Infinity | NegInfinity | NaN

datatype json =
    JNull
  | JBool bool
  | JInt int
  | JFloat pyfloat
  | JStr string
  | JArr "json list"
  | JObj "(string \<times> json) list"

type_synonym dict = "(string \<times> json) list"

text \<open>\<^verbatim>\<open>d[k]\<close> on a dictionary is \<open>map_of d k\<close> (\<open>None\<close> is Python's KeyError);
  \<^verbatim>\<open>d[k] = v\<close> replaces the value of an existing key in place and appends a new key;
  \<^verbatim>\<open>del d[k]\<close> removes the key and keeps the order of the others.\<close>

abbreviation dict_set :: "dict \<Rightarrow> string \<Rightarrow> json \<Rightarrow> dict" where
  "dict_set d k v \<equiv> AList.update k v d"

abbreviation dict_del :: "dict \<Rightarrow> string \<Rightarrow> dict" where
  "dict_del d k \<equiv> AList.delete k d"

text \<open>Python's truth value of a decoded value (\<^verbatim>\<open>if value\<close>).\<close>

fun truthy :: "json \<Rightarrow> bool" where
  "truthy JNull = False"
| "truthy (JBool b) = b"
| "truthy (JInt n) = (n \<noteq> 0)"
| "truthy (JFloat f) = (f \<noteq> Finite 0)"
| "truthy (JStr s) = (s \<noteq> [])"
| "truthy (JArr xs) = (xs \<noteq> [])"
| "truthy (JObj d) = (d \<noteq> [])"

text \<open>\<^verbatim>\<open>value == 1\<close>: in Python \<^verbatim>\<open>True == 1\<close> and \<^verbatim>\<open>1.0 == 1\<close> hold as well.\<close>

fun py_eq_one :: "json \<Rightarrow> bool" where
  "py_eq_one (JInt n) = (n = 1)"
| "py_eq_one (JBool b) = b"
| "py_eq_one (JFloat f) = (f = Finite 1)"
| "py_eq_one _ = False"

text \<open>\<^verbatim>\<open>name.replace(" ", "_")\<close>\<close>

definition replace_spaces :: "string \<Rightarrow> string" where
  "replace_spaces name = map (\<lambda>c. if c = CHR '' '' then CHR ''_'' else c) name"

section \<open>The snapshot transformer\<close>

text \<open>
  One pass of the loop body of \<^verbatim>\<open>restruct_and_separate_current_data\<close> on the record \<open>i\<close>:
  \<^verbatim>\<open>del i["key"]; name = i["name"]; name = name.replace(" ", "_"); del i["name"];
  new_data_list[name] = i["value"]\<close>. The result is the record as the statements executed
  so far have left it, and the new accumulator, or \<open>None\<close> when a statement raised.
\<close>

definition process_record :: "json \<Rightarrow> dict \<Rightarrow> json \<times> dict option" where
  "process_record i new_data_list =
     (case i of
        JObj r \<Rightarrow>
          (case map_of r ''key'' of
             None \<Rightarrow> (i, None)
           | Some _ \<Rightarrow>
               (let r1 = dict_del r ''key'' in
                case map_of r1 ''name'' of
                  Some (JStr name) \<Rightarrow>
                    (let name' = replace_spaces name; r2 = dict_del r1 ''name'' in
                     case map_of r2 ''value'' of
                       None \<Rightarrow> (JObj r2, None)
                     | Some v \<Rightarrow> (JObj r2, Some (dict_set new_data_list name' v)))
                | _ \<Rightarrow> (JObj r1, None)))
      | _ \<Rightarrow> (i, None))"

text \<open>The \<^verbatim>\<open>for i in data_list\<close> loop over a list: it stops at the first record that
  raises, leaving the records after it untouched.\<close>

fun flatten_loop :: "json list \<Rightarrow> dict \<Rightarrow> json list \<times> dict option" where
  "flatten_loop [] new_data_list = ([], Some new_data_list)"
| "flatten_loop (i # rest) new_data_list =
     (case process_record i new_data_list of
        (i', None) \<Rightarrow> (i' # rest, None)
      | (i', Some acc) \<Rightarrow>
          (case flatten_loop rest acc of (rest', res) \<Rightarrow> (i' # rest', res)))"

text \<open>
  \<^verbatim>\<open>restruct_and_separate_current_data(data, device)\<close>. The function mutates \<open>data\<close>, so
  the model returns the snapshot as the call leaves it together with the returned value
  (\<open>None\<close> is the \<^verbatim>\<open>return None\<close> of the exception handler). Every exception raised in the
  \<^verbatim>\<open>try\<close> block is caught: subscripting a value that is not a dictionary, a missing
  \<^verbatim>\<open>dataList\<close>, iterating a number or a boolean, and deleting from the characters or keys
  that iterating a string or a dictionary yields. The device label is only printed.
\<close>

definition restruct_and_separate_current_data :: "json \<Rightarrow> string \<Rightarrow> json \<times> dict option" where
  "restruct_and_separate_current_data data device =
     (case data of
        JObj d \<Rightarrow>
          (case map_of d ''dataList'' of
             None \<Rightarrow> (data, None)
           | Some data_list \<Rightarrow>
               if truthy data_list then
                 (case data_list of
                    JArr recs \<Rightarrow>
                      (case flatten_loop recs [] of
                         (recs', None) \<Rightarrow> (JObj (dict_set d ''dataList'' (JArr recs')), None)
                       | (recs', Some new_data_list) \<Rightarrow>
                           (JObj (dict_del d ''dataList''), Some new_data_list))
                  | _ \<Rightarrow> (data, None))
               else (data, Some []))
      | _ \<Rightarrow> (data, None))"

section \<open>Configuration and upstream replies\<close>

text \<open>The configuration object read from \<^verbatim>\<open>config.json\<close>, with the keys \<^verbatim>\<open>run\<close> reads.\<close>

record mqtt_config =
  broker :: string
  port :: int
  mqtt_username :: string
  mqtt_password :: string
  topic :: string

record config =
  url :: string
  appid :: string
  secret :: string
  username :: string
  password :: string
  orgId :: json
  stationId :: json
  inverterId :: json
  loggerId :: json
  debug :: bool
  mqtt :: mqtt_config

text \<open>
  What one HTTPS request of the cycle comes back with: \<open>Decoded v\<close> when
  \<^verbatim>\<open>json.loads(res.read())\<close> returned \<open>v\<close>, \<open>Failed\<close> when the connection, the response or the
  decoding raised.
\<close>

datatype reply = Failed | Decoded json

record upstream =
  token_reply :: reply
  station_reply :: reply
  inverter_reply :: reply
  logger_reply :: reply

text \<open>\<^verbatim>\<open>get_token\<close>: \<^verbatim>\<open>return data["access_token"]\<close>; every exception of the \<^verbatim>\<open>try\<close> block,
  the subscript's included, returns \<^verbatim>\<open>None\<close>.\<close>

definition get_token ::
  "string \<Rightarrow> string \<Rightarrow> string \<Rightarrow> string \<Rightarrow> string \<Rightarrow> json \<Rightarrow> reply \<Rightarrow> json" where
  "get_token url' appid' secret' username' password' orgId' r =
     (case r of
        Failed \<Rightarrow> JNull
      | Decoded data \<Rightarrow>
          (case data of
             JObj d \<Rightarrow> (case map_of d ''access_token'' of None \<Rightarrow> JNull | Some t \<Rightarrow> t)
           | _ \<Rightarrow> JNull))"

text \<open>\<^verbatim>\<open>get_station_realtime\<close> and \<^verbatim>\<open>get_device_current_data\<close>: the header
  \<^verbatim>\<open>"bearer " + token\<close> is built inside the \<^verbatim>\<open>try\<close> block and raises for a token that is not
  a string; otherwise the decoded body is returned as it is.\<close>

definition get_station_realtime :: "string \<Rightarrow> json \<Rightarrow> json \<Rightarrow> reply \<Rightarrow> json" where
  "get_station_realtime url' stationid token r =
     (case token of
        JStr _ \<Rightarrow> (case r of Failed \<Rightarrow> JNull | Decoded data \<Rightarrow> data)
      | _ \<Rightarrow> JNull)"

definition get_device_current_data :: "string \<Rightarrow> json \<Rightarrow> json \<Rightarrow> reply \<Rightarrow> json" where
  "get_device_current_data url' device_sn token r =
     (case token of
        JStr _ \<Rightarrow> (case r of Failed \<Rightarrow> JNull | Decoded data \<Rightarrow> data)
      | _ \<Rightarrow> JNull)"

section \<open>Python operations that \<^verbatim>\<open>run\<close> applies outside any \<^verbatim>\<open>try\<close> block\<close>

datatype py_error = KeyError | TypeError | AttributeError | ValueError | OSError

fun has_substring :: "string \<Rightarrow> string \<Rightarrow> bool" where
  "has_substring sub [] = (sub = [])"
| "has_substring sub (c # cs) = (take (length sub) (c # cs) = sub \<or> has_substring sub cs)"

text \<open>\<^verbatim>\<open>k in x\<close> for a string \<open>k\<close>: a key of a dictionary, an element of a list, a substring
  of a string; any other value is not iterable.\<close>

definition py_in :: "string \<Rightarrow> json \<Rightarrow> py_error + bool" where
  "py_in k x =
     (case x of
        JObj d \<Rightarrow> Inr (map_of d k \<noteq> None)
      | JArr xs \<Rightarrow> Inr (JStr k \<in> set xs)
      | JStr s \<Rightarrow> Inr (has_substring k s)
      | _ \<Rightarrow> Inl TypeError)"

text \<open>\<^verbatim>\<open>x[k]\<close> for a string \<open>k\<close>: only a dictionary can be subscripted by a string.\<close>

definition subscript :: "json \<Rightarrow> string \<Rightarrow> py_error + json" where
  "subscript x k =
     (case x of
        JObj d \<Rightarrow> (case map_of d k of None \<Rightarrow> Inl KeyError | Some v \<Rightarrow> Inr v)
      | _ \<Rightarrow> Inl TypeError)"

text \<open>\<^verbatim>\<open>x.items()\<close>: only a dictionary has the method.\<close>

definition items :: "json \<Rightarrow> py_error + dict" where
  "items x = (case x of JObj d \<Rightarrow> Inr d | _ \<Rightarrow> Inl AttributeError)"

section \<open>The bus and the publishing cycle\<close>

text \<open>
  The MQTT client library is not part of the program, and \<^verbatim>\<open>run\<close> calls it outside any
  \<^verbatim>\<open>try\<close> block, so what the library raises leaves \<^verbatim>\<open>run\<close>. Its behaviour is a parameter of
  the model: whether \<^verbatim>\<open>client.connect(broker, port)\<close> raises (an unreachable broker, a
  refused connection), and for each topic and payload whether \<^verbatim>\<open>client.publish\<close> raises
  (the library refuses a topic that is empty or holds a wildcard, and a payload that is
  not a string, a number, bytes or \<^verbatim>\<open>None\<close>) or sends. A send that returns a non-zero
  status is only printed by \<^verbatim>\<open>publish\<close>; console output is not part of the model.
\<close>

datatype payload = Raw json | Dumps dict

record bus =
  connect_error :: "py_error option"
  publish_error :: "string \<Rightarrow> payload \<Rightarrow> py_error option"

text \<open>What a cycle does to the client, in order. A payload is either a snapshot value
  handed over as it is or the \<^verbatim>\<open>json.dumps\<close> of a flattened attribute dictionary.\<close>

datatype event =
    Connect string int string
  | LoopStart
  | Publish string payload
  | LoopStop

datatype outcome = Returned | Raised py_error

text \<open>A run of statements: the client calls made, and the exception that ended the run,
  if one did. \<open>and_then\<close> is one statement after another.\<close>

type_synonym steps = "event list \<times> py_error option"

definition and_then :: "steps \<Rightarrow> steps \<Rightarrow> steps" where
  "and_then first rest =
     (case first of
        (ev, Some e) \<Rightarrow> (ev, Some e)
      | (ev, None) \<Rightarrow> (case rest of (ev', r) \<Rightarrow> (ev @ ev', r)))"

definition discard :: "string list" where
  "discard = [''code'', ''msg'', ''requestId'', ''success'']"

text \<open>\<^verbatim>\<open>publish(client, topic, payload, debug)\<close>: \<^verbatim>\<open>client.publish(topic, payload)\<close> raises or
  sends; after a send the function only prints.\<close>

definition publish :: "bus \<Rightarrow> string \<Rightarrow> payload \<Rightarrow> bool \<Rightarrow> steps" where
  "publish b tp p dbg =
     (case publish_error b tp p of
        Some e \<Rightarrow> ([], Some e)
      | None \<Rightarrow> ([Publish tp p], None))"

text \<open>\<^verbatim>\<open>for i, value in data.items(): if value and i not in discard:
  publish(client, f"{topic}/<section>/{i}", value, config["debug"])\<close>\<close>

fun publish_items :: "bus \<Rightarrow> string \<Rightarrow> string \<Rightarrow> bool \<Rightarrow> dict \<Rightarrow> steps" where
  "publish_items b tp section dbg [] = ([], None)"
| "publish_items b tp section dbg ((i, v) # rest) =
     and_then
       (if truthy v \<and> i \<notin> set discard
        then publish b (tp @ ''/'' @ section @ ''/'' @ i) (Raw v) dbg else ([], None))
       (publish_items b tp section dbg rest)"

text \<open>\<^verbatim>\<open>if data_list: publish(client, f"{topic}/<section>/attributes",
  json.dumps(data_list), config["debug"])\<close>\<close>

definition publish_attributes :: "bus \<Rightarrow> string \<Rightarrow> string \<Rightarrow> bool \<Rightarrow> dict option \<Rightarrow> steps" where
  "publish_attributes b tp section dbg data_list =
     (case data_list of
        None \<Rightarrow> ([], None)
      | Some nd \<Rightarrow>
          if nd \<noteq> [] then publish b (tp @ ''/'' @ section @ ''/attributes'') (Dumps nd) dbg
          else ([], None))"

text \<open>\<^verbatim>\<open>inverter_data["deviceState"] if inverter_data is not None and
  "deviceState" in inverter_data else None\<close>\<close>

definition inverter_device_state :: "json \<Rightarrow> py_error + json" where
  "inverter_device_state inverter_data =
     (if inverter_data = JNull then Inr JNull
      else
        (case py_in ''deviceState'' inverter_data of
           Inl e \<Rightarrow> Inl e
         | Inr False \<Rightarrow> Inr JNull
         | Inr True \<Rightarrow> subscript inverter_data ''deviceState''))"

text \<open>The branch \<^verbatim>\<open>if inverter_device_state == 1\<close>: the three per-field loops and the two
  attribute messages, in the order of the source.\<close>

definition publish_online ::
  "bus \<Rightarrow> string \<Rightarrow> bool \<Rightarrow> json \<Rightarrow> json \<Rightarrow> dict option \<Rightarrow> json \<Rightarrow> dict option \<Rightarrow> steps" where
  "publish_online b tp dbg station_data inverter_data inverter_data_list logger_data
       logger_data_list =
     (case items station_data of
        Inl e \<Rightarrow> ([], Some e)
      | Inr st \<Rightarrow>
          and_then (publish_items b tp ''station'' dbg st)
            (case items inverter_data of
               Inl e \<Rightarrow> ([], Some e)
             | Inr iv \<Rightarrow>
                 and_then (publish_items b tp ''inverter'' dbg iv)
                   (and_then (publish_attributes b tp ''inverter'' dbg inverter_data_list)
                      (case items logger_data of
                         Inl e \<Rightarrow> ([], Some e)
                       | Inr lg \<Rightarrow>
                           and_then (publish_items b tp ''logger'' dbg lg)
                             (publish_attributes b tp ''logger'' dbg logger_data_list)))))"

text \<open>The \<^verbatim>\<open>else\<close> branch: the two device states, each subscripted when its send is built.\<close>

definition publish_offline :: "bus \<Rightarrow> string \<Rightarrow> bool \<Rightarrow> json \<Rightarrow> json \<Rightarrow> steps" where
  "publish_offline b tp dbg inverter_data logger_data =
     (case subscript inverter_data ''deviceState'' of
        Inl e \<Rightarrow> ([], Some e)
      | Inr v \<Rightarrow>
          and_then (publish b (tp @ ''/inverter/deviceState'') (Raw v) dbg)
            (case subscript logger_data ''deviceState'' of
               Inl e \<Rightarrow> ([], Some e)
             | Inr w \<Rightarrow> publish b (tp @ ''/logger/deviceState'') (Raw w) dbg))"

text \<open>
  \<^verbatim>\<open>run(config)\<close>, given the replies of the four requests, the behaviour of the client
  library and the client id that \<^verbatim>\<open>generate_client_id\<close> draws. The result is the trace of
  client calls and how the call ended. \<^verbatim>\<open>connect_mqtt\<close> and \<^verbatim>\<open>client.loop_start()\<close> come
  before the snapshot check; \<^verbatim>\<open>client.loop_stop()\<close> is the last statement of the function:
  the \<^verbatim>\<open>return\<close> after the snapshot check and an exception both leave before it.
\<close>

definition run :: "config \<Rightarrow> upstream \<Rightarrow> bus \<Rightarrow> string \<Rightarrow> event list \<times> outcome" where
  "run config up b client_id =
     (let token = get_token (url config) (appid config) (secret config) (username config)
                    (password config) (orgId config) (token_reply up)
      in
      if token = JNull then ([], Returned)
      else
        (let station_data = get_station_realtime (url config) (stationId config) token (station_reply up);
             inverter_fetched = get_device_current_data (url config) (inverterId config) token (inverter_reply up);
             logger_fetched = get_device_current_data (url config) (loggerId config) token (logger_reply up);
             (inverter_data, inverter_data_list) =
                restruct_and_separate_current_data inverter_fetched ''Inverter'';
             (logger_data, logger_data_list) =
                restruct_and_separate_current_data logger_fetched ''Logger'';
             tp = topic (mqtt config);
             dbg = debug config
         in
         case connect_error b of
           Some e \<Rightarrow> ([], Raised e)
         | None \<Rightarrow>
             (let opened = [Connect (broker (mqtt config)) (port (mqtt config)) client_id, LoopStart]
              in
              case inverter_device_state inverter_data of
                Inl e \<Rightarrow> (opened, Raised e)
              | Inr state \<Rightarrow>
                  if state = JNull \<or> station_data = JNull \<or> logger_data = JNull
                  then (opened, Returned)
                  else
                    (case (if py_eq_one state
                           then publish_online b tp dbg station_data inverter_data inverter_data_list
                                  logger_data logger_data_list
                           else publish_offline b tp dbg inverter_data logger_data)
                     of
                       (sent, Some e) \<Rightarrow> (opened @ sent, Raised e)
                     | (sent, None) \<Rightarrow> (opened @ sent @ [LoopStop], Returned)))))"

text \<open>The topic/payload pairs a trace sends, in order.\<close>

fun published :: "event list \<Rightarrow> (string \<times> payload) list" where
  "published [] = []"
| "published (Publish tp p # es) = (tp, p) # published es"
| "published (_ # es) = published es"

section \<open>Vocabulary of the specification\<close>

subsection \<open>Attribute records\<close>

text \<open>An attribute record of the shape \<^verbatim>\<open>{key, name, value}\<close>, the name being a string.\<close>

definition attribute_record :: "json \<Rightarrow> bool" where
  "attribute_record i =
     (case i of
        JObj r \<Rightarrow>
          map_of r ''key'' \<noteq> None \<and>
          (case map_of r ''name'' of Some (JStr _) \<Rightarrow> True | _ \<Rightarrow> False) \<and>
          map_of r ''value'' \<noteq> None
      | _ \<Rightarrow> False)"

text \<open>``The name with every space replaced by an underscore'', character by character:
  \<open>k\<close> has the length of \<open>name\<close>, an underscore wherever \<open>name\<close> has a space, and the
  character of \<open>name\<close> everywhere else.\<close>

definition spaces_to_underscores :: "string \<Rightarrow> string \<Rightarrow> bool" where
  "spaces_to_underscores name k \<longleftrightarrow>
     length k = length name \<and>
     (\<forall>j<length name. k ! j = (if name ! j = CHR '' '' then CHR ''_'' else name ! j))"

text \<open>The same as a function, by recursion on the name.\<close>

fun underscored :: "string \<Rightarrow> string" where
  "underscored [] = []"
| "underscored (c # cs) = (if c = CHR '' '' then CHR ''_'' else c) # underscored cs"

text \<open>What the specification makes of one record: the underscored name, and the value.\<close>

definition attribute_pair :: "json \<Rightarrow> string \<times> json" where
  "attribute_pair i =
     (case i of
        JObj r \<Rightarrow>
          (case (map_of r ''name'', map_of r ''value'') of
             (Some (JStr name), Some v) \<Rightarrow> (underscored name, v)
           | _ \<Rightarrow> ([], JNull))
      | _ \<Rightarrow> ([], JNull))"

definition store_pair :: "dict \<Rightarrow> string \<times> json \<Rightarrow> dict" where
  "store_pair acc p = dict_set acc (fst p) (snd p)"

text \<open>The fields of a snapshot that is a dictionary.\<close>

definition fields_of :: "json \<Rightarrow> dict" where
  "fields_of x = (case x of JObj d \<Rightarrow> d | _ \<Rightarrow> [])"



subsection \<open>The publication policy\<close>

text \<open>The per-field messages of a snapshot: for every field that is non-empty and not a
  metadata field, in the order of the snapshot, the value on \<^verbatim>\<open><topic>/<section>/<field>\<close>.\<close>

definition field_messages :: "string \<Rightarrow> string \<Rightarrow> dict \<Rightarrow> (string \<times> payload) list" where
  "field_messages tp section d =
     map (\<lambda>f. (tp @ ''/'' @ section @ ''/'' @ fst f, Raw (snd f)))
       (filter (\<lambda>f. truthy (snd f) \<and> fst f \<notin> {''code'', ''msg'', ''requestId'', ''success''}) d)"

text \<open>The attributes message of a device: the serialized flattened attributes, if there are
  any, on \<^verbatim>\<open><topic>/<section>/attributes\<close>.\<close>

definition attributes_message :: "string \<Rightarrow> string \<Rightarrow> dict option \<Rightarrow> (string \<times> payload) list" where
  "attributes_message tp section flattened =
     (case flattened of
        None \<Rightarrow> []
      | Some nd \<Rightarrow> if nd = [] then [] else [(tp @ ''/'' @ section @ ''/attributes'', Dumps nd)])"

text \<open>Handing a list of messages to the client library, in order: each one is sent, up to
  the first that the library refuses, whose exception ends the run.\<close>

fun deliver :: "bus \<Rightarrow> (string \<times> payload) list \<Rightarrow> steps" where
  "deliver b [] = ([], None)"
| "deliver b ((tp, p) # ms) =
     (case publish_error b tp p of
        Some e \<Rightarrow> ([], Some e)
      | None \<Rightarrow> (case deliver b ms of (ev, r) \<Rightarrow> (Publish tp p # ev, r)))"

text \<open>The first two client calls of a cycle that opens its connection, and the end of a
  cycle that publishes: the loop is stopped if no send raised.\<close>

definition opened :: "config \<Rightarrow> string \<Rightarrow> event list" where
  "opened config client_id =
     [Connect (broker (mqtt config)) (port (mqtt config)) client_id, LoopStart]"

definition closing :: "event list \<Rightarrow> steps \<Rightarrow> event list \<times> outcome" where
  "closing before s =
     (case s of
        (sent, Some e) \<Rightarrow> (before @ sent, Raised e)
      | (sent, None) \<Rightarrow> (before @ sent @ [LoopStop], Returned))"

text \<open>The per-field topics of the metadata fields.\<close>

definition metadata_topics :: "string \<Rightarrow> string list" where
  "metadata_topics tp =
     concat (map (\<lambda>section. map (\<lambda>f. tp @ ''/'' @ section @ ''/'' @ f) discard)
               [''station'', ''inverter'', ''logger''])"

subsection \<open>The values of a cycle\<close>

text \<open>The values \<^verbatim>\<open>run\<close> holds after the four requests of a cycle, and the state it reads
  from the inverter snapshot once the transformer has consumed it.\<close>

definition cycle_token :: "config \<Rightarrow> upstream \<Rightarrow> json" where
  "cycle_token config up =
     get_token (url config) (appid config) (secret config) (username config)
       (password config) (orgId config) (token_reply up)"

definition station_snapshot :: "config \<Rightarrow> upstream \<Rightarrow> json" where
  "station_snapshot config up =
     get_station_realtime (url config) (stationId config) (cycle_token config up) (station_reply up)"

definition inverter_snapshot :: "config \<Rightarrow> upstream \<Rightarrow> json" where
  "inverter_snapshot config up =
     get_device_current_data (url config) (inverterId config) (cycle_token config up)
       (inverter_reply up)"

definition logger_snapshot :: "config \<Rightarrow> upstream \<Rightarrow> json" where
  "logger_snapshot config up =
     get_device_current_data (url config) (loggerId config) (cycle_token config up)
       (logger_reply up)"

definition cycle_state :: "config \<Rightarrow> upstream \<Rightarrow> py_error + json" where
  "cycle_state config up =
     inverter_device_state
       (fst (restruct_and_separate_current_data (inverter_snapshot config up) ''Inverter''))"

subsection \<open>Concrete cycles\<close>

definition example_record :: json where
  "example_record =
     JObj [(''key'', JStr ''k1''), (''name'', JStr ''Output Power''), (''value'', JInt 500)]"

definition voltage_record :: json where
  "voltage_record =
     JObj [(''key'', JStr ''k2''), (''name'', JStr ''AC Voltage R 1''), (''value'', JInt 230)]"

definition signal_record :: json where
  "signal_record =
     JObj [(''key'', JStr ''k3''), (''name'', JStr ''Signal Strength''), (''value'', JInt 80)]"

definition example_config :: config where
  "example_config =
     \<lparr>url = ''api.example.net'', appid = ''app'', secret = ''s3cret'', username = ''me@example.net'',
      password = ''pw'', orgId = JNull, stationId = JInt 7, inverterId = JStr ''INV1'',
      loggerId = JStr ''LOG1'', debug = False,
      mqtt = \<lparr>broker = ''localhost'', port = 1883, mqtt_username = ''u'', mqtt_password = ''p'',
              topic = ''pv''\<rparr>\<rparr>"

text \<open>A client library that refuses an empty topic and a topic holding a wildcard with a
  ValueError, and a list or dictionary payload with a TypeError, with a broker that can be
  reached, and with one that cannot.\<close>

definition client_checks :: "string \<Rightarrow> payload \<Rightarrow> py_error option" where
  "client_checks tp p =
     (if tp = [] \<or> CHR ''+'' \<in> set tp \<or> CHR ''#'' \<in> set tp then Some ValueError
      else
        (case p of
           Raw (JArr _) \<Rightarrow> Some TypeError
         | Raw (JObj _) \<Rightarrow> Some TypeError
         | _ \<Rightarrow> None))"

definition reachable_broker :: bus where
  "reachable_broker = \<lparr>connect_error = None, publish_error = client_checks\<rparr>"

definition unreachable_broker :: bus where
  "unreachable_broker = \<lparr>connect_error = Some OSError, publish_error = client_checks\<rparr>"

definition token_ok :: reply where
  "token_ok = Decoded (JObj [(''access_token'', JStr ''tok'')])"

text \<open>The snapshot of the publication-filter example, as the station snapshot of the
  cycles below.\<close>

definition example_station :: dict where
  "example_station =
     [(''code'', JInt 1), (''power'', JInt 0), (''energy'', JFloat (Finite (25 / 2)))]"

text \<open>An online cycle, both devices with attributes.\<close>

definition online_cycle :: upstream where
  "online_cycle =
     \<lparr>token_reply = token_ok,
      station_reply = Decoded (JObj example_station),
      inverter_reply =
        Decoded (JObj [(''deviceState'', JInt 1), (''dataList'', JArr [example_record, voltage_record])]),
      logger_reply =
        Decoded (JObj [(''deviceState'', JInt 1), (''dataList'', JArr [signal_record])])\<rparr>"

text \<open>An offline cycle whose device states are \<open>0\<close>; the snapshots have no \<^verbatim>\<open>dataList\<close>.\<close>

definition offline_cycle :: upstream where
  "offline_cycle =
     \<lparr>token_reply = token_ok,
      station_reply = Decoded (JObj example_station),
      inverter_reply = Decoded (JObj [(''deviceState'', JInt 0)]),
      logger_reply = Decoded (JObj [(''deviceState'', JInt 0)])\<rparr>"


text \<open>An offline cycle whose logger snapshot has no \<^verbatim>\<open>deviceState\<close>.\<close>

definition logger_without_state :: upstream where
  "logger_without_state =
     \<lparr>token_reply = token_ok,
      station_reply = Decoded (JObj example_station),
      inverter_reply = Decoded (JObj [(''deviceState'', JInt 3)]),
      logger_reply = Decoded (JObj [(''deviceSn'', JStr ''LOG1'')])\<rparr>"

text \<open>A cycle whose station request fails.\<close>

definition station_failed :: upstream where
  "station_failed =
     \<lparr>token_reply = token_ok,
      station_reply = Failed,
      inverter_reply = Decoded (JObj [(''deviceState'', JInt 1)]),
      logger_reply = Decoded (JObj [(''deviceState'', JInt 1)])\<rparr>"

text \<open>A cycle whose token request fails.\<close>

definition token_failed :: upstream where
  "token_failed =
     \<lparr>token_reply = Failed,
      station_reply = Decoded (JObj example_station),
      inverter_reply = Decoded (JObj [(''deviceState'', JInt 1)]),
      logger_reply = Decoded (JObj [(''deviceState'', JInt 1)])\<rparr>"

text \<open>A cycle whose station request fails and whose inverter request is answered with the
  JSON text \<^verbatim>\<open>5\<close>.\<close>

definition station_failed_inverter_number :: upstream where
  "station_failed_inverter_number =
     \<lparr>token_reply = token_ok,
      station_reply = Failed,
      inverter_reply = Decoded (JInt 5),
      logger_reply = Decoded (JObj [(''deviceState'', JInt 1)])\<rparr>"


text \<open>An online cycle whose inverter snapshot has no \<^verbatim>\<open>dataList\<close> and whose logger
  snapshot has an empty one.\<close>

definition bare_cycle :: upstream where
  "bare_cycle =
     \<lparr>token_reply = token_ok,
      station_reply = Decoded (JObj example_station),
      inverter_reply = Decoded (JObj [(''deviceState'', JInt 1)]),
      logger_reply = Decoded (JObj [(''deviceState'', JInt 1), (''dataList'', JArr [])])\<rparr>"

section \<open>Properties of the transformer\<close>

subsection \<open>Replacing spaces\<close>

lemma replace_spaces_underscored: "replace_spaces name = underscored name"
  by (induction name) (simp_all add: replace_spaces_def)

lemma underscored_length: "length (underscored name) = length name"
  by (induction name) simp_all

lemma underscored_nth:
  "j < length name \<Longrightarrow>
     underscored name ! j = (if name ! j = CHR '' '' then CHR ''_'' else name ! j)"
proof (induction name arbitrary: j)
  case Nil
  then show ?case by simp
next
  case (Cons c cs)
  then show ?case by (cases j) simp_all
qed

lemma underscored_spec: "spaces_to_underscores name (underscored name)"
  by (simp add: spaces_to_underscores_def underscored_length underscored_nth)

subsection \<open>Well-formed records\<close>

lemma process_record_ok:
  assumes "attribute_record i"
  shows "\<exists>i'. process_record i acc = (i', Some (store_pair acc (attribute_pair i)))"
  using assms
  by (auto simp: attribute_record_def attribute_pair_def process_record_def store_pair_def Let_def
        replace_spaces_underscored split: json.splits option.splits)

lemma attribute_pair_spec:
  assumes "attribute_record i"
  shows "\<exists>name v. map_of (fields_of i) ''name'' = Some (JStr name) \<and>
           map_of (fields_of i) ''value'' = Some v \<and>
           spaces_to_underscores name (fst (attribute_pair i)) \<and> snd (attribute_pair i) = v"
  using assms
  by (auto simp: attribute_record_def attribute_pair_def fields_of_def underscored_spec
           split: json.splits option.splits)

lemma flatten_loop_ok:
  assumes "\<forall>i\<in>set recs. attribute_record i"
  shows "\<exists>recs'. flatten_loop recs acc =
           (recs', Some (foldl store_pair acc (map attribute_pair recs)))"
  using assms
proof (induction recs arbitrary: acc)
  case Nil
  then show ?case by simp
next
  case (Cons i recs)
  from Cons.prems obtain i' where i':
    "process_record i acc = (i', Some (store_pair acc (attribute_pair i)))"
    using process_record_ok by fastforce
  from Cons.prems have "\<forall>i\<in>set recs. attribute_record i" by simp
  from Cons.IH[OF this, of "store_pair acc (attribute_pair i)"]
  obtain recs' where "flatten_loop recs (store_pair acc (attribute_pair i)) =
      (recs', Some (foldl store_pair (store_pair acc (attribute_pair i)) (map attribute_pair recs)))"
    by blast
  with i' show ?case by simp
qed

lemma map_of_foldl_store:
  "map_of (foldl store_pair acc ps) = map_of acc ++ map_of (rev ps)"
proof (induction ps arbitrary: acc)
  case Nil
  then show ?case by simp
next
  case (Cons p ps)
  have "map_of (store_pair acc p) = map_of acc ++ map_of [p]"
    by (cases p) (simp add: store_pair_def update_conv')
  then have "map_of (foldl store_pair (store_pair acc p) ps) =
      (map_of acc ++ map_of [p]) ++ map_of (rev ps)"
    by (simp only: Cons.IH)
  then show ?case
    by (simp only: foldl_Cons rev.simps map_of_append map_add_assoc)
qed

lemma distinct_foldl_store:
  "distinct (map fst acc) \<Longrightarrow> distinct (map fst (foldl store_pair acc ps))"
  by (induction ps arbitrary: acc) (simp_all add: store_pair_def distinct_update)

lemma restruct_records:
  assumes "map_of d ''dataList'' = Some (JArr recs)"
    and "recs \<noteq> []"
    and "\<forall>i\<in>set recs. attribute_record i"
  shows "restruct_and_separate_current_data (JObj d) device =
           (JObj (dict_del d ''dataList''), Some (foldl store_pair [] (map attribute_pair recs)))"
proof -
  obtain recs' where
    "flatten_loop recs [] = (recs', Some (foldl store_pair [] (map attribute_pair recs)))"
    using flatten_loop_ok[OF assms(3)] by blast
  with assms(1,2) show ?thesis
    by (simp add: restruct_and_separate_current_data_def)
qed

subsection \<open>Shape of the result\<close>




section \<open>Traces of a cycle\<close>

subsection \<open>Runs of sends\<close>

lemma and_then_simps [simp]:
  "and_then ([], None) s = s"
  "and_then (ev, Some e) s = (ev, Some e)"
  "and_then (ev, None) (ev', r) = (ev @ ev', r)"
  by (simp_all add: and_then_def split: prod.splits)

lemma and_then_assoc: "and_then (and_then a b) c = and_then a (and_then b c)"
  by (auto simp: and_then_def split: prod.splits option.splits)

lemma deliver_append: "deliver b (xs @ ys) = and_then (deliver b xs) (deliver b ys)"
proof (induction xs)
  case Nil
  then show ?case by simp
next
  case (Cons m xs)
  then show ?case
    by (cases m) (auto simp: and_then_def split: option.splits prod.splits)
qed

lemma publish_deliver: "publish b tp p dbg = deliver b [(tp, p)]"
  by (simp add: publish_def split: option.splits)

lemma publish_items_deliver:
  "publish_items b tp section dbg d = deliver b (field_messages tp section d)"
proof (induction d)
  case Nil
  then show ?case by (simp add: field_messages_def)
next
  case (Cons f d)
  obtain i v where f: "f = (i, v)" by (cases f)
  have "field_messages tp section (f # d) =
      (if truthy v \<and> i \<notin> set discard then [(tp @ ''/'' @ section @ ''/'' @ i, Raw v)] else [])
        @ field_messages tp section d"
    by (simp add: f field_messages_def discard_def)
  then show ?case
    using Cons.IH by (simp add: f deliver_append publish_deliver)
qed

lemma publish_attributes_deliver:
  "publish_attributes b tp section dbg r = deliver b (attributes_message tp section r)"
  by (simp add: publish_attributes_def attributes_message_def publish_deliver split: option.splits)

lemma deliver_events:
  "e \<in> set (fst (deliver b ms)) \<Longrightarrow> \<exists>tp p. e = Publish tp p \<and> (tp, p) \<in> set ms"
proof (induction ms)
  case Nil
  then show ?case by simp
next
  case (Cons m ms)
  then show ?case
    by (cases m) (auto split: option.splits prod.splits)
qed


subsection \<open>The two branches on snapshots that are mappings\<close>



subsection \<open>The cycle\<close>

lemma run_unfold:
  "run config up b cid =
     (if cycle_token config up = JNull then ([], Returned)
      else
        (case connect_error b of
           Some e \<Rightarrow> ([], Raised e)
         | None \<Rightarrow>
        (case cycle_state config up of
           Inl e \<Rightarrow> (opened config cid, Raised e)
         | Inr state \<Rightarrow>
             if state = JNull \<or> station_snapshot config up = JNull \<or>
                fst (restruct_and_separate_current_data (logger_snapshot config up) ''Logger'') = JNull
             then (opened config cid, Returned)
             else
               closing (opened config cid)
                 (if py_eq_one state
                      then publish_online b (topic (mqtt config)) (debug config)
                             (station_snapshot config up)
                             (fst (restruct_and_separate_current_data (inverter_snapshot config up) ''Inverter''))
                             (snd (restruct_and_separate_current_data (inverter_snapshot config up) ''Inverter''))
                             (fst (restruct_and_separate_current_data (logger_snapshot config up) ''Logger''))
                             (snd (restruct_and_separate_current_data (logger_snapshot config up) ''Logger''))
                      else publish_offline b (topic (mqtt config)) (debug config)
                             (fst (restruct_and_separate_current_data (inverter_snapshot config up) ''Inverter''))
                             (fst (restruct_and_separate_current_data (logger_snapshot config up) ''Logger''))))))"
  unfolding run_def Let_def split_beta cycle_state_def opened_def closing_def
    cycle_token_def station_snapshot_def inverter_snapshot_def logger_snapshot_def
  by (rule refl)






subsection \<open>Where published messages come from\<close>

lemma publish_items_events:
  assumes "e \<in> set (fst (publish_items b tp section dbg d))"
  shows "\<exists>i v. (i, v) \<in> set d \<and> truthy v \<and> i \<notin> set discard \<and>
           e = Publish (tp @ ''/'' @ section @ ''/'' @ i) (Raw v)"
proof -
  from assms obtain t p where tp: "e = Publish t p" "(t, p) \<in> set (field_messages tp section d)"
    unfolding publish_items_deliver using deliver_events by blast
  then show ?thesis
    by (auto simp: field_messages_def discard_def)
qed

lemma publish_attributes_events:
  assumes "e \<in> set (fst (publish_attributes b tp section dbg r))"
  shows "\<exists>nd. r = Some nd \<and> nd \<noteq> [] \<and> e = Publish (tp @ ''/'' @ section @ ''/attributes'') (Dumps nd)"
proof -
  from assms obtain t p where "e = Publish t p" "(t, p) \<in> set (attributes_message tp section r)"
    unfolding publish_attributes_deliver using deliver_events by blast
  then show ?thesis
    by (auto simp: attributes_message_def split: option.splits if_splits)
qed

lemma and_then_events: "set (fst (and_then s t)) \<subseteq> set (fst s) \<union> set (fst t)"
  by (auto simp: and_then_def split: prod.splits option.splits)

lemma publish_online_events:
  assumes "e \<in> set (fst (publish_online b tp dbg s i il l ll))"
  shows "(\<exists>sec d. sec \<in> {''station'', ''inverter'', ''logger''} \<and>
            e \<in> set (fst (publish_items b tp sec dbg d))) \<or>
         e \<in> set (fst (publish_attributes b tp ''inverter'' dbg il)) \<or>
         e \<in> set (fst (publish_attributes b tp ''logger'' dbg ll))"
proof (cases "items s")
  case (Inl x)
  with assms show ?thesis by (simp add: publish_online_def)
next
  case s: (Inr st)
  show ?thesis
  proof (cases "items i")
    case (Inl x)
    with assms s have "e \<in> set (fst (publish_items b tp ''station'' dbg st))"
      using and_then_events[of "publish_items b tp ''station'' dbg st" "([], Some x)"]
      by (auto simp: publish_online_def)
    then show ?thesis by blast
  next
    case i: (Inr iv)
    show ?thesis
    proof (cases "items l")
      case (Inl x)
      with assms s i have "e \<in> set (fst (publish_items b tp ''station'' dbg st)) \<or>
          e \<in> set (fst (publish_items b tp ''inverter'' dbg iv)) \<or>
          e \<in> set (fst (publish_attributes b tp ''inverter'' dbg il))"
        using and_then_events[of "publish_items b tp ''station'' dbg st"
            "and_then (publish_items b tp ''inverter'' dbg iv)
               (and_then (publish_attributes b tp ''inverter'' dbg il) ([], Some x))"]
          and_then_events[of "publish_items b tp ''inverter'' dbg iv"
               "and_then (publish_attributes b tp ''inverter'' dbg il) ([], Some x)"]
          and_then_events[of "publish_attributes b tp ''inverter'' dbg il" "([], Some x)"]
        by (auto simp: publish_online_def)
      then show ?thesis by blast
    next
      case l: (Inr lg)
      with assms s i have "e \<in> set (fst (publish_items b tp ''station'' dbg st)) \<or>
          e \<in> set (fst (publish_items b tp ''inverter'' dbg iv)) \<or>
          e \<in> set (fst (publish_attributes b tp ''inverter'' dbg il)) \<or>
          e \<in> set (fst (publish_items b tp ''logger'' dbg lg)) \<or>
          e \<in> set (fst (publish_attributes b tp ''logger'' dbg ll))"
        using and_then_events[of "publish_items b tp ''station'' dbg st"
            "and_then (publish_items b tp ''inverter'' dbg iv)
               (and_then (publish_attributes b tp ''inverter'' dbg il)
                  (and_then (publish_items b tp ''logger'' dbg lg)
                     (publish_attributes b tp ''logger'' dbg ll)))"]
          and_then_events[of "publish_items b tp ''inverter'' dbg iv"
               "and_then (publish_attributes b tp ''inverter'' dbg il)
                  (and_then (publish_items b tp ''logger'' dbg lg)
                     (publish_attributes b tp ''logger'' dbg ll))"]
          and_then_events[of "publish_attributes b tp ''inverter'' dbg il"
                  "and_then (publish_items b tp ''logger'' dbg lg)
                     (publish_attributes b tp ''logger'' dbg ll)"]
          and_then_events[of "publish_items b tp ''logger'' dbg lg"
                     "publish_attributes b tp ''logger'' dbg ll"]
        by (auto simp: publish_online_def)
      then show ?thesis by blast
    qed
  qed
qed

lemma publish_offline_events:
  assumes "e \<in> set (fst (publish_offline b tp dbg i l))"
  shows "\<exists>v. e = Publish (tp @ ''/inverter/deviceState'') (Raw v) \<or>
             e = Publish (tp @ ''/logger/deviceState'') (Raw v)"
  using assms
  by (auto simp: publish_offline_def publish_def and_then_def
           split: sum.splits option.splits prod.splits)

lemma publish_not_opened [simp]: "Publish t p \<notin> set (opened config cid)"
  by (simp add: opened_def)

lemma closing_publish:
  "Publish t p \<in> set (fst (closing (opened config cid) s)) \<Longrightarrow> Publish t p \<in> set (fst s)"
  by (auto simp: closing_def split: prod.splits option.splits)

lemma run_publish_cases:
  assumes "Publish t p \<in> set (fst (run config up b cid))"
  shows "\<exists>s. cycle_state config up = Inr s \<and>
     (if py_eq_one s
      then Publish t p \<in> set (fst (publish_online b (topic (mqtt config)) (debug config)
             (station_snapshot config up)
             (fst (restruct_and_separate_current_data (inverter_snapshot config up) ''Inverter''))
             (snd (restruct_and_separate_current_data (inverter_snapshot config up) ''Inverter''))
             (fst (restruct_and_separate_current_data (logger_snapshot config up) ''Logger''))
             (snd (restruct_and_separate_current_data (logger_snapshot config up) ''Logger''))))
      else Publish t p \<in> set (fst (publish_offline b (topic (mqtt config)) (debug config)
             (fst (restruct_and_separate_current_data (inverter_snapshot config up) ''Inverter''))
             (fst (restruct_and_separate_current_data (logger_snapshot config up) ''Logger'')))))"
proof (cases "cycle_state config up")
  case (Inl e)
  with assms show ?thesis
    unfolding run_unfold by (auto split: option.splits if_splits)
next
  case (Inr s)
  with assms show ?thesis
    unfolding run_unfold
    by (auto dest: closing_publish split: option.splits if_splits)
qed

lemma field_topic_not_metadata:
  assumes "sec \<in> {''station'', ''inverter'', ''logger''}" and "i \<notin> set discard"
  shows "tp @ ''/'' @ sec @ ''/'' @ i \<notin> set (metadata_topics tp)"
  using assms by (auto simp: metadata_topics_def discard_def)

lemma attributes_topic_not_metadata:
  assumes "sec \<in> {''inverter'', ''logger''}"
  shows "tp @ ''/'' @ sec @ ''/attributes'' \<notin> set (metadata_topics tp)"
  using assms by (auto simp: metadata_topics_def discard_def)

lemma state_topic_not_metadata:
  "tp @ ''/inverter/deviceState'' \<notin> set (metadata_topics tp)"
  "tp @ ''/logger/deviceState'' \<notin> set (metadata_topics tp)"
  by (auto simp: metadata_topics_def discard_def)

lemma published_opened [simp]: "published (opened config cid @ es) = published es"
  by (simp add: opened_def)

lemma published_opened_only [simp]: "published (opened config cid) = []"
  by (simp add: opened_def)

lemma published_snoc_stop [simp]: "published (es @ [LoopStop]) = published es"
  by (induction es rule: published.induct) simp_all

lemma published_closing [simp]:
  "published (fst (closing (opened config cid) s)) = published (fst s)"
  by (simp add: closing_def split: prod.splits option.splits)

lemma snd_closing [simp]:
  "snd (closing before s) = (case snd s of None \<Rightarrow> Returned | Some e \<Rightarrow> Raised e)"
  by (simp add: closing_def split: prod.splits option.splits)

subsection \<open>The concrete cycles\<close>







lemma example_brokers:
  "connect_error reachable_broker = None"
  "publish_error reachable_broker = client_checks"
  "connect_error unreachable_broker = Some OSError"
  by (simp_all add: reachable_broker_def unreachable_broker_def)

lemma example_topic: "topic (mqtt example_config) = ''pv''"
  by (simp add: example_config_def)


text \<open>The traces of the concrete cycles, by evaluation of \<open>run\<close>.\<close>

lemmas run_eval =
  run_def Let_def get_token_def get_station_realtime_def get_device_current_data_def token_ok_def
  restruct_and_separate_current_data_def process_record_def replace_spaces_def
  inverter_device_state_def py_in_def subscript_def items_def
  publish_online_def publish_offline_def publish_attributes_def publish_def and_then_def
  discard_def example_config_def example_station_def example_record_def voltage_record_def
  signal_record_def reachable_broker_def unreachable_broker_def client_checks_def

lemma online_trace:
  "run example_config online_cycle reachable_broker cid =
     ([Connect ''localhost'' 1883 cid, LoopStart,
       Publish ''pv/station/energy'' (Raw (JFloat (Finite (25 / 2)))),
       Publish ''pv/inverter/deviceState'' (Raw (JInt 1)),
       Publish ''pv/inverter/attributes''
         (Dumps [(''Output_Power'', JInt 500), (''AC_Voltage_R_1'', JInt 230)]),
       Publish ''pv/logger/deviceState'' (Raw (JInt 1)),
       Publish ''pv/logger/attributes'' (Dumps [(''Signal_Strength'', JInt 80)]),
       LoopStop], Returned)"
  by (simp add: run_eval online_cycle_def)

lemma offline_trace:
  "run example_config offline_cycle reachable_broker cid =
     ([Connect ''localhost'' 1883 cid, LoopStart,
       Publish ''pv/inverter/deviceState'' (Raw (JInt 0)),
       Publish ''pv/logger/deviceState'' (Raw (JInt 0)),
       LoopStop], Returned)"
  by (simp add: run_eval offline_cycle_def)

lemma bare_trace:
  "run example_config bare_cycle reachable_broker cid =
     ([Connect ''localhost'' 1883 cid, LoopStart,
       Publish ''pv/station/energy'' (Raw (JFloat (Finite (25 / 2)))),
       Publish ''pv/inverter/deviceState'' (Raw (JInt 1)),
       Publish ''pv/logger/deviceState'' (Raw (JInt 1)),
       LoopStop], Returned)"
  by (simp add: run_eval bare_cycle_def)


lemma station_failed_trace:
  "run example_config station_failed reachable_broker cid =
     ([Connect ''localhost'' 1883 cid, LoopStart], Returned)"
  "run example_config station_failed unreachable_broker cid = ([], Raised OSError)"
  "run example_config station_failed_inverter_number reachable_broker cid =
     ([Connect ''localhost'' 1883 cid, LoopStart], Raised TypeError)"
  "run example_config token_failed unreachable_broker cid = ([], Returned)"
  by (simp_all add: run_eval station_failed_def station_failed_inverter_number_def token_failed_def)



lemma logger_without_state_trace:
  "run example_config logger_without_state reachable_broker cid =
     ([Connect ''localhost'' 1883 cid, LoopStart,
       Publish ''pv/inverter/deviceState'' (Raw (JInt 3))],
      Raised KeyError)"
  by (simp add: run_eval logger_without_state_def)

section \<open>Claims about the transformer\<close>

text \<open>\<^bold>\<open>C1.\<close> For a snapshot whose \<^verbatim>\<open>dataList\<close> is a non-empty list of records of the shape
  \<^verbatim>\<open>{key, name, value}\<close>, the transformer removes \<^verbatim>\<open>dataList\<close> from the snapshot and returns
  the dictionary that holds, for each record, the record's value under the record's name
  with every space replaced by an underscore: the key has the length of the name, an
  underscore at every position where the name has a space and the name's character at
  every other position. Where two records give the same key the later one wins, and no
  key is repeated.\<close>

theorem flatten_records:
  assumes "map_of d ''dataList'' = Some (JArr recs)"
    and "recs \<noteq> []"
    and "\<forall>i\<in>set recs. attribute_record i"
  shows "\<exists>nd. restruct_and_separate_current_data (JObj d) device =
            (JObj (dict_del d ''dataList''), Some nd) \<and>
          map_of nd = map_of (rev (map attribute_pair recs)) \<and>
          distinct (map fst nd) \<and>
          (\<forall>i\<in>set recs. \<exists>name v.
              map_of (fields_of i) ''name'' = Some (JStr name) \<and>
              map_of (fields_of i) ''value'' = Some v \<and>
              spaces_to_underscores name (fst (attribute_pair i)) \<and>
              snd (attribute_pair i) = v)"
proof -
  let ?nd = "foldl store_pair [] (map attribute_pair recs)"
  have "restruct_and_separate_current_data (JObj d) device =
          (JObj (dict_del d ''dataList''), Some ?nd)"
    using assms by (rule restruct_records)
  moreover have "map_of ?nd = map_of (rev (map attribute_pair recs))"
    by (simp add: map_of_foldl_store)
  moreover have "distinct (map fst ?nd)"
    by (rule distinct_foldl_store) simp
  moreover have "\<forall>i\<in>set recs. \<exists>name v.
              map_of (fields_of i) ''name'' = Some (JStr name) \<and>
              map_of (fields_of i) ''value'' = Some v \<and>
              spaces_to_underscores name (fst (attribute_pair i)) \<and>
              snd (attribute_pair i) = v"
    using assms(3) attribute_pair_spec by blast
  ultimately show ?thesis by blast
qed

theorem flatten_records_witness:
  "attribute_record example_record \<and> attribute_record voltage_record \<and>
   restruct_and_separate_current_data (JObj [(''dataList'', JArr [example_record])]) ''Inverter'' =
     (JObj [], Some [(''Output_Power'', JInt 500)]) \<and>
   restruct_and_separate_current_data
       (JObj [(''deviceState'', JInt 1), (''dataList'', JArr [example_record, voltage_record])])
       ''Inverter'' =
     (JObj [(''deviceState'', JInt 1)],
      Some [(''Output_Power'', JInt 500), (''AC_Voltage_R_1'', JInt 230)]) \<and>
   spaces_to_underscores ''AC Voltage R 1'' ''AC_Voltage_R_1''"
proof -
  have a: "attribute_record example_record" "attribute_record voltage_record"
    by (simp_all add: example_record_def voltage_record_def attribute_record_def)
  have p: "attribute_pair example_record = (''Output_Power'', JInt 500)"
      "attribute_pair voltage_record = (''AC_Voltage_R_1'', JInt 230)"
    by (simp_all add: example_record_def voltage_record_def attribute_pair_def)
  have f: "map_of (fields_of voltage_record) ''name'' = Some (JStr ''AC Voltage R 1'')"
    by (simp add: voltage_record_def fields_of_def)
  from flatten_records[of "[(''dataList'', JArr [example_record])]" "[example_record]" "''Inverter''"]
  obtain nd where nd: "restruct_and_separate_current_data
        (JObj [(''dataList'', JArr [example_record])]) ''Inverter'' = (JObj [], Some nd)"
      "map_of nd = map_of [(''Output_Power'', JInt 500)]"
    using a p by auto
  have 1: "restruct_and_separate_current_data (JObj [(''dataList'', JArr [example_record])])
      ''Inverter'' = (JObj [], Some [(''Output_Power'', JInt 500)])"
    using nd(1)
    by (simp add: restruct_and_separate_current_data_def example_record_def process_record_def
          replace_spaces_def)
  from flatten_records[of "[(''deviceState'', JInt 1), (''dataList'', JArr [example_record, voltage_record])]"
      "[example_record, voltage_record]" "''Inverter''"]
  have s: "spaces_to_underscores ''AC Voltage R 1'' ''AC_Voltage_R_1''"
    using a p f by auto
  have 2: "restruct_and_separate_current_data
       (JObj [(''deviceState'', JInt 1), (''dataList'', JArr [example_record, voltage_record])])
       ''Inverter'' =
     (JObj [(''deviceState'', JInt 1)],
      Some [(''Output_Power'', JInt 500), (''AC_Voltage_R_1'', JInt 230)])"
    by (simp add: restruct_and_separate_current_data_def example_record_def voltage_record_def
          process_record_def replace_spaces_def)
  from a 1 2 s show ?thesis by simp
qed

text \<open>\<^bold>\<open>C10.\<close> When the snapshot argument is \<^verbatim>\<open>None\<close>, the transformer returns \<^verbatim>\<open>None\<close>
  (the subscript raises inside the \<^verbatim>\<open>try\<close> block and the handler returns), for every
  device label, and leaves the argument as it was.\<close>

theorem flatten_none:
  "restruct_and_separate_current_data JNull device = (JNull, None)"
  by (simp add: restruct_and_separate_current_data_def)

text \<open>\<^bold>\<open>C4\<close> as stated fails for the empty list: the \<^verbatim>\<open>del data["dataList"]\<close> is inside the
  \<^verbatim>\<open>if data["dataList"]:\<close> block, so an empty \<^verbatim>\<open>dataList\<close> stays in the snapshot.\<close>

theorem empty_datalist_kept:
  "map_of (fields_of (fst (restruct_and_separate_current_data
       (JObj [(''dataList'', JArr [])]) ''Inverter''))) ''dataList'' = Some (JArr [])"
  by (simp add: restruct_and_separate_current_data_def fields_of_def)

text \<open>\<^bold>\<open>C4\<close>, amended. For a snapshot (a dictionary, its keys distinct) that contains
  \<^verbatim>\<open>dataList\<close>: when \<^verbatim>\<open>dataList\<close> is a non-empty list of \<^verbatim>\<open>{key, name, value}\<close> records, the
  transformer removes the field from the snapshot; when \<^verbatim>\<open>dataList\<close> is empty (falsy), the
  snapshot is left as it was. In both cases the per-field publication step run on the
  snapshot afterwards sends nothing on the \<^verbatim>\<open>dataList\<close> topic, whatever the client library
  does.\<close>

theorem datalist_consumed:
  assumes "map_of d ''dataList'' = Some dl"
    and "distinct (map fst d)"
  shows "((\<exists>recs. dl = JArr recs \<and> recs \<noteq> [] \<and> (\<forall>i\<in>set recs. attribute_record i)) \<longrightarrow>
            map_of (fields_of (fst (restruct_and_separate_current_data (JObj d) device)))
              ''dataList'' = None) \<and>
         (\<not> truthy dl \<longrightarrow>
            fst (restruct_and_separate_current_data (JObj d) device) = JObj d) \<and>
         ((\<exists>recs. dl = JArr recs \<and> recs \<noteq> [] \<and> (\<forall>i\<in>set recs. attribute_record i)) \<or> \<not> truthy dl \<longrightarrow>
            (\<forall>p. Publish (tp @ ''/'' @ section @ ''/dataList'') p \<notin>
               set (fst (publish_items b tp section dbg
                     (fields_of (fst (restruct_and_separate_current_data (JObj d) device)))))))"
proof (intro conjI impI)
  assume "\<exists>recs. dl = JArr recs \<and> recs \<noteq> [] \<and> (\<forall>i\<in>set recs. attribute_record i)"
  then obtain recs where r: "dl = JArr recs" "recs \<noteq> []" "\<forall>i\<in>set recs. attribute_record i"
    by blast
  show "map_of (fields_of (fst (restruct_and_separate_current_data (JObj d) device)))
          ''dataList'' = None"
    using restruct_records[of d recs device] assms(1) r
    by (simp add: fields_of_def delete_conv')
next
  assume "\<not> truthy dl"
  then show "fst (restruct_and_separate_current_data (JObj d) device) = JObj d"
    using assms(1) by (simp add: restruct_and_separate_current_data_def)
next
  assume h: "(\<exists>recs. dl = JArr recs \<and> recs \<noteq> [] \<and> (\<forall>i\<in>set recs. attribute_record i)) \<or> \<not> truthy dl"
  let ?d' = "fields_of (fst (restruct_and_separate_current_data (JObj d) device))"
  have no: "\<And>v. (''dataList'', v) \<in> set ?d' \<Longrightarrow> \<not> truthy v"
  proof -
    fix v assume v: "(''dataList'', v) \<in> set ?d'"
    from h show "\<not> truthy v"
    proof
      assume "\<exists>recs. dl = JArr recs \<and> recs \<noteq> [] \<and> (\<forall>i\<in>set recs. attribute_record i)"
      then obtain recs where r: "dl = JArr recs" "recs \<noteq> []" "\<forall>i\<in>set recs. attribute_record i"
        by blast
      have "?d' = dict_del d ''dataList''"
        using restruct_records[of d recs device] assms(1) r by (simp add: fields_of_def)
      with v have "(''dataList'', v) \<in> set (dict_del d ''dataList'')" by simp
      then have "''dataList'' \<in> fst ` set (dict_del d ''dataList'')" by force
      then show ?thesis using delete_notin_dom by fast
    next
      assume f: "\<not> truthy dl"
      then have "?d' = d"
        using assms(1) by (simp add: restruct_and_separate_current_data_def fields_of_def)
      with v have "(''dataList'', v) \<in> set d" by simp
      with assms(2) have "map_of d ''dataList'' = Some v" by simp
      with assms(1) f show ?thesis by simp
    qed
  qed
  show "\<forall>p. Publish (tp @ ''/'' @ section @ ''/dataList'') p \<notin>
      set (fst (publish_items b tp section dbg ?d'))"
  proof (intro allI notI)
    fix p
    assume "Publish (tp @ ''/'' @ section @ ''/dataList'') p \<in>
      set (fst (publish_items b tp section dbg ?d'))"
    from publish_items_events[OF this] obtain i v where iv: "(i, v) \<in> set ?d'" "truthy v"
        "tp @ ''/'' @ section @ ''/dataList'' = tp @ ''/'' @ section @ ''/'' @ i"
      by auto
    from iv(3) have "i = ''dataList''" by simp
    with iv(1,2) no show False by blast
  qed
qed

theorem datalist_consumed_witness:
  "(map_of [(''deviceState'', JInt 1), (''dataList'', JArr [example_record])] ''dataList'' =
      Some (JArr [example_record]) \<and>
    distinct (map fst [(''deviceState'', JInt 1), (''dataList'', JArr [example_record])]) \<and>
    (\<exists>recs. JArr [example_record] = JArr recs \<and> recs \<noteq> [] \<and> (\<forall>i\<in>set recs. attribute_record i)) \<and>
    map_of (fields_of (fst (restruct_and_separate_current_data
       (JObj [(''deviceState'', JInt 1), (''dataList'', JArr [example_record])]) ''Inverter'')))
      ''dataList'' = None \<and>
    (\<forall>p. Publish (''pv'' @ ''/'' @ ''inverter'' @ ''/dataList'') p \<notin>
       set (fst (publish_items reachable_broker ''pv'' ''inverter'' False
             (fields_of (fst (restruct_and_separate_current_data
                (JObj [(''deviceState'', JInt 1), (''dataList'', JArr [example_record])])
                ''Inverter''))))))) \<and>
   (map_of [(''deviceState'', JInt 1), (''dataList'', JArr [])] ''dataList'' = Some (JArr []) \<and>
    distinct (map fst [(''deviceState'', JInt 1), (''dataList'', JArr [])]) \<and>
    \<not> truthy (JArr []) \<and>
    fst (restruct_and_separate_current_data
       (JObj [(''deviceState'', JInt 1), (''dataList'', JArr [])]) ''Logger'') =
      JObj [(''deviceState'', JInt 1), (''dataList'', JArr [])] \<and>
    (\<forall>p. Publish (''pv'' @ ''/'' @ ''logger'' @ ''/dataList'') p \<notin>
       set (fst (publish_items reachable_broker ''pv'' ''logger'' False
             (fields_of (fst (restruct_and_separate_current_data
                (JObj [(''deviceState'', JInt 1), (''dataList'', JArr [])]) ''Logger'')))))))"
proof -
  have a: "map_of [(''deviceState'', JInt 1), (''dataList'', JArr [example_record])] ''dataList'' =
      Some (JArr [example_record])"
    by simp
  have b: "distinct (map fst [(''deviceState'', JInt 1), (''dataList'', JArr [example_record])])"
    by simp
  have c: "\<exists>recs. JArr [example_record] = JArr recs \<and> recs \<noteq> [] \<and>
      (\<forall>i\<in>set recs. attribute_record i)"
    by (simp add: example_record_def attribute_record_def)
  have a': "map_of [(''deviceState'', JInt 1), (''dataList'', JArr [])] ''dataList'' = Some (JArr [])"
    by simp
  have b': "distinct (map fst [(''deviceState'', JInt 1), (''dataList'', JArr [])])"
    by simp
  have c': "\<not> truthy (JArr [])"
    by simp
  from datalist_consumed[OF a b, of "''Inverter''" "''pv''" "''inverter''" reachable_broker False] c
    datalist_consumed[OF a' b', of "''Logger''" "''pv''" "''logger''" reachable_broker False] c'
  show ?thesis using a b a' b' by blast
qed

section \<open>Claims about the cycle\<close>










text \<open>\<^bold>\<open>C9.\<close> For a fixed configuration, fixed upstream replies and a fixed behaviour of the
  client library, the topic/payload pairs a cycle publishes and the way it ends are the
  same whatever client id is drawn: the id reaches the connect call only.\<close>

theorem client_id_independent:
  "published (fst (run config up b cid)) = published (fst (run config up b cid')) \<and>
   snd (run config up b cid) = snd (run config up b cid')"
  unfolding run_unfold
  by (auto split: sum.splits option.splits)

text \<open>\<^bold>\<open>C2\<close> as stated fails in the offline branch: the two device states are published
  without the truth test, so a falsy \<^verbatim>\<open>deviceState\<close> is sent on its own topic.\<close>

theorem offline_state_zero_published:
  "Publish ''pv/inverter/deviceState'' (Raw (JInt 0)) \<in>
     set (fst (run example_config offline_cycle reachable_broker ''Ab3dE6gH9j'')) \<and>
   \<not> truthy (JInt 0)"
  by (simp add: offline_trace)

text \<open>\<^bold>\<open>C2\<close>, amended. No cycle publishes on the per-field topic of a metadata field
  (\<^verbatim>\<open>code\<close>, \<^verbatim>\<open>msg\<close>, \<^verbatim>\<open>requestId\<close>, \<^verbatim>\<open>success\<close>), and every snapshot value a cycle publishes is
  truthy, except the two \<^verbatim>\<open>deviceState\<close> messages of the offline branch, which are sent
  whatever their values.\<close>

theorem publication_filter:
  assumes "Publish t p \<in> set (fst (run config up b cid))"
  shows "t \<notin> set (metadata_topics (topic (mqtt config))) \<and>
         (\<forall>v. p = Raw v \<longrightarrow>
            truthy v \<or>
            ((t = topic (mqtt config) @ ''/inverter/deviceState'' \<or>
              t = topic (mqtt config) @ ''/logger/deviceState'') \<and>
             (\<exists>s. cycle_state config up = Inr s \<and> \<not> py_eq_one s)))"
proof -
  from run_publish_cases[OF assms] obtain s where s: "cycle_state config up = Inr s"
    and c: "if py_eq_one s
      then Publish t p \<in> set (fst (publish_online b (topic (mqtt config)) (debug config)
             (station_snapshot config up)
             (fst (restruct_and_separate_current_data (inverter_snapshot config up) ''Inverter''))
             (snd (restruct_and_separate_current_data (inverter_snapshot config up) ''Inverter''))
             (fst (restruct_and_separate_current_data (logger_snapshot config up) ''Logger''))
             (snd (restruct_and_separate_current_data (logger_snapshot config up) ''Logger''))))
      else Publish t p \<in> set (fst (publish_offline b (topic (mqtt config)) (debug config)
             (fst (restruct_and_separate_current_data (inverter_snapshot config up) ''Inverter''))
             (fst (restruct_and_separate_current_data (logger_snapshot config up) ''Logger''))))"
    by blast
  show ?thesis
  proof (cases "py_eq_one s")
    case True
    with c have m: "Publish t p \<in> set (fst (publish_online b (topic (mqtt config)) (debug config)
             (station_snapshot config up)
             (fst (restruct_and_separate_current_data (inverter_snapshot config up) ''Inverter''))
             (snd (restruct_and_separate_current_data (inverter_snapshot config up) ''Inverter''))
             (fst (restruct_and_separate_current_data (logger_snapshot config up) ''Logger''))
             (snd (restruct_and_separate_current_data (logger_snapshot config up) ''Logger''))))"
      by simp
    from publish_online_events[OF m]
    consider sec d where "sec \<in> {''station'', ''inverter'', ''logger''}"
        "Publish t p \<in> set (fst (publish_items b (topic (mqtt config)) sec (debug config) d))"
      | sec r where "sec \<in> {''inverter'', ''logger''}"
        "Publish t p \<in> set (fst (publish_attributes b (topic (mqtt config)) sec (debug config) r))"
      by auto
    then show ?thesis
    proof cases
      case 1
      from publish_items_events[OF 1(2)] obtain i v where
        "truthy v" "i \<notin> set discard"
        "t = topic (mqtt config) @ ''/'' @ sec @ ''/'' @ i" "p = Raw v"
        by auto
      then show ?thesis using field_topic_not_metadata[OF 1(1)] by simp
    next
      case 2
      from publish_attributes_events[OF 2(2)] obtain nd where
        "t = topic (mqtt config) @ ''/'' @ sec @ ''/attributes''" "p = Dumps nd"
        by auto
      then show ?thesis using attributes_topic_not_metadata[OF 2(1)] by simp
    qed
  next
    case False
    with c have m: "Publish t p \<in> set (fst (publish_offline b (topic (mqtt config)) (debug config)
             (fst (restruct_and_separate_current_data (inverter_snapshot config up) ''Inverter''))
             (fst (restruct_and_separate_current_data (logger_snapshot config up) ''Logger''))))"
      by simp
    from publish_offline_events[OF m]
    obtain v where "Publish t p = Publish (topic (mqtt config) @ ''/inverter/deviceState'') (Raw v) \<or>
        Publish t p = Publish (topic (mqtt config) @ ''/logger/deviceState'') (Raw v)"
      by blast
    then show ?thesis using s False state_topic_not_metadata by auto
  qed
qed

theorem publication_filter_witness:
  "Publish ''pv/station/energy'' (Raw (JFloat (Finite (25 / 2)))) \<in>
     set (fst (run example_config online_cycle reachable_broker ''Ab3dE6gH9j'')) \<and>
   ''pv/station/energy'' \<notin> set (metadata_topics ''pv'') \<and>
   truthy (JFloat (Finite (25 / 2))) \<and>
   fst (publish_items reachable_broker ''pv'' ''station'' False example_station) =
     [Publish ''pv/station/energy'' (Raw (JFloat (Finite (25 / 2))))]"
proof -
  have m: "Publish ''pv/station/energy'' (Raw (JFloat (Finite (25 / 2)))) \<in>
     set (fst (run example_config online_cycle reachable_broker ''Ab3dE6gH9j''))"
    by (simp add: online_trace)
  have f: "fst (publish_items reachable_broker ''pv'' ''station'' False example_station) =
     [Publish ''pv/station/energy'' (Raw (JFloat (Finite (25 / 2))))]"
    by (simp add: example_station_def publish_def and_then_def discard_def example_brokers
          client_checks_def)
  from publication_filter[OF m] m f show ?thesis by (simp add: example_topic)
qed

text \<open>\<^bold>\<open>C6.\<close> \<^verbatim>\<open>run\<close> can raise: in the offline branch \<^verbatim>\<open>logger_data["deviceState"]\<close> is
  subscripted outside any \<^verbatim>\<open>try\<close> block and without the membership test that guards the
  inverter's. With a logger snapshot that has no \<^verbatim>\<open>deviceState\<close> the cycle sends the
  inverter state and ends in a KeyError, the loop still running.\<close>

theorem logger_state_missing_raises:
  "run example_config logger_without_state reachable_broker ''Ab3dE6gH9j'' =
     ([Connect ''localhost'' 1883 ''Ab3dE6gH9j'', LoopStart,
       Publish ''pv/inverter/deviceState'' (Raw (JInt 3))],
      Raised KeyError)"
  by (rule logger_without_state_trace)

text \<open>\<^bold>\<open>C8.\<close> A cycle that aborts after the connection was opened leaves the network loop
  running: the \<^verbatim>\<open>return\<close> of the snapshot check comes after \<^verbatim>\<open>client.loop_start()\<close> and
  before \<^verbatim>\<open>client.loop_stop()\<close>. With a failed station request the trace holds the connect
  and the loop start and no loop stop.\<close>

theorem abort_leaves_loop_running:
  "run example_config station_failed reachable_broker ''Ab3dE6gH9j'' =
     ([Connect ''localhost'' 1883 ''Ab3dE6gH9j'', LoopStart], Returned) \<and>
   LoopStop \<notin> set (fst (run example_config station_failed reachable_broker ''Ab3dE6gH9j''))"
  by (simp add: station_failed_trace)

end
